theory Spec2Isabelle
  imports Main "HOL-Library.AList"
begin

section \<open>Python values, exceptions and string operations\<close>

text \<open>
  The charm (\<^verbatim>\<open>src/charm.py\<close>) is a class of event handlers that read the state of
  their collaborators (the workload container, the Juju model, the database and NRF
  relation libraries) and act on it. The handlers are modelled as functions from the event
  and the state of the world to either the world they leave behind or an uncaught
  exception together with the world at the moment it is raised. Exceptions raised by the
  charm's own expressions are values of \<open>error\<close>; \<open>AddressValueError\<close> is the
  \<^verbatim>\<open>ValueError\<close> that \<^verbatim>\<open>ipaddress.IPv4Address\<close> raises. Failures inside a
  collaborator call (a push that Pebble refuses, a \<^verbatim>\<open>unit-get\<close> that exits with an
  error) are not part of the model, with one exception: Pebble's refusal of a layer whose
  services do not say how to override is \<open>PebbleError\<close>.
\<close>

datatype error =
    RuntimeError string
  | IndexError
  | KeyError string
  | AttributeError
  | AddressValueError
  | PebbleError

text \<open>\<^verbatim>\<open>s.split(sep)\<close> for a one-character separator: never the empty list.\<close>

fun split :: "char \<Rightarrow> string \<Rightarrow> string list" where
  "split sep [] = [[]]"
| "split sep (c # cs) =
     (if c = sep then [] # split sep cs
      else (case split sep cs of
              [] \<Rightarrow> [[c]]
            | w # ws \<Rightarrow> (c # w) # ws))"

text \<open>\<^verbatim>\<open>sep.join(xs)\<close>.\<close>

fun join :: "string \<Rightarrow> string list \<Rightarrow> string" where
  "join sep [] = []"
| "join sep [x] = x"
| "join sep (x # y # ys) = x @ sep @ join sep (y # ys)"

text \<open>\<^verbatim>\<open>xs[0]\<close>: IndexError on the empty list.\<close>

definition index0 :: "'a list \<Rightarrow> error + 'a" where
  "index0 xs = (case xs of [] \<Rightarrow> Inl IndexError | x # _ \<Rightarrow> Inr x)"

text \<open>\<^verbatim>\<open>d[k]\<close> on a dict: KeyError on a missing key.\<close>

definition getitem :: "(string \<rightharpoonup> 'v) \<Rightarrow> string \<Rightarrow> error + 'v" where
  "getitem d k = (case d k of None \<Rightarrow> Inl (KeyError k) | Some v \<Rightarrow> Inr v)"

text \<open>
  \<^verbatim>\<open>uris.split(",")[0]\<close> where \<^verbatim>\<open>uris\<close> is an \<^verbatim>\<open>Optional[str]\<close>: calling
  \<^verbatim>\<open>split\<close> on \<^verbatim>\<open>None\<close> raises AttributeError.
\<close>

definition first_uri :: "string option \<Rightarrow> error + string" where
  "first_uri uris =
     (case uris of
        None \<Rightarrow> Inl AttributeError
      | Some s \<Rightarrow> index0 (split CHR '','' s))"

text \<open>
  \<^verbatim>\<open>s.strip()\<close>: the whitespace of ASCII text is the characters 9 to 13 and 28 to 32.
\<close>

definition isspace :: "char \<Rightarrow> bool" where
  "isspace c = (let n = (of_char c :: nat) in (9 \<le> n \<and> n \<le> 13) \<or> (28 \<le> n \<and> n \<le> 32))"

definition strip :: "string \<Rightarrow> string" where
  "strip s = rev (dropWhile isspace (rev (dropWhile isspace s)))"

text \<open>
  \<^verbatim>\<open>ipaddress.IPv4Address(s)\<close> for a string: four octets separated by dots, each of one
  to three decimal digits, without a leading zero unless it is the digit 0 alone, and at most
  255. The address is the list of its four octets; \<^verbatim>\<open>str\<close> of it prints them in
  decimal with dots between them.
\<close>

definition isdigit :: "char \<Rightarrow> bool" where
  "isdigit c = (let n = (of_char c :: nat) in 48 \<le> n \<and> n \<le> 57)"

definition int_of_digits :: "string \<Rightarrow> nat" where
  "int_of_digits s = foldl (\<lambda>acc c. 10 * acc + (of_char c - 48)) 0 s"

definition parse_octet :: "string \<Rightarrow> error + nat" where
  "parse_octet octet_str =
     (if octet_str = [] then Inl AddressValueError
      else if \<not> list_all isdigit octet_str then Inl AddressValueError
      else if length octet_str > 3 then Inl AddressValueError
      else if octet_str \<noteq> ''0'' \<and> hd octet_str = CHR ''0'' then Inl AddressValueError
      else if int_of_digits octet_str > 255 then Inl AddressValueError
      else Inr (int_of_digits octet_str))"

fun parse_octets :: "string list \<Rightarrow> error + nat list" where
  "parse_octets [] = Inr []"
| "parse_octets (x # xs) =
     (case parse_octet x of
        Inl e \<Rightarrow> Inl e
      | Inr n \<Rightarrow> (case parse_octets xs of Inl e \<Rightarrow> Inl e | Inr ns \<Rightarrow> Inr (n # ns)))"

definition IPv4Address :: "string \<Rightarrow> error + nat list" where
  "IPv4Address address =
     (if CHR ''/'' \<in> set address then Inl AddressValueError
      else if address = [] then Inl AddressValueError
      else (let octets = split CHR ''.'' address
            in if length octets \<noteq> 4 then Inl AddressValueError else parse_octets octets))"

definition digit_char :: "nat \<Rightarrow> char" where
  "digit_char n = char_of (48 + n)"

text \<open>\<^verbatim>\<open>str(n)\<close> for an octet.\<close>

definition str_octet :: "nat \<Rightarrow> string" where
  "str_octet n =
     (if n < 10 then [digit_char n]
      else if n < 100 then [digit_char (n div 10), digit_char (n mod 10)]
      else [digit_char (n div 100), digit_char (n div 10 mod 10), digit_char (n mod 10)])"

definition str_ipv4 :: "nat list \<Rightarrow> string" where
  "str_ipv4 ip = join ''.'' (map str_octet ip)"

text \<open>How Jinja2 prints a value that may be \<^verbatim>\<open>None\<close>.\<close>

definition jinja_str :: "string option \<Rightarrow> string" where
  "jinja_str v = (case v of None \<Rightarrow> ''None'' | Some s \<Rightarrow> s)"

section \<open>Constants of the charm\<close>

definition BASE_CONFIG_PATH :: string where
  "BASE_CONFIG_PATH = ''/etc/pcf''"

definition CONFIG_FILE_NAME :: string where
  "CONFIG_FILE_NAME = ''pcfcfg.conf''"

definition DATABASE_NAME :: string where
  "DATABASE_NAME = ''free5gc''"

definition config_path :: string where
  "config_path = BASE_CONFIG_PATH @ ''/'' @ CONFIG_FILE_NAME"

section \<open>The configuration template\<close>

text \<open>
  A Jinja2 template without control structures is a sequence of literal text and
  variable references; rendering substitutes each variable by its value in the context
  and an undefined variable by the empty string.
\<close>

datatype segment = Text string | Var string

fun render_segment :: "(string \<times> string) list \<Rightarrow> segment \<Rightarrow> string" where
  "render_segment ctx (Text s) = s"
| "render_segment ctx (Var v) = (case map_of ctx v of None \<Rightarrow> [] | Some s \<Rightarrow> s)"

definition render :: "segment list \<Rightarrow> (string \<times> string) list \<Rightarrow> string" where
  "render template ctx = concat (map (render_segment ctx) template)"

text \<open>
  Modelled from the spec: the template file \<^verbatim>\<open>src/templates/pcfcfg.conf.j2\<close> that
  \<^verbatim>\<open>_write_config_file\<close> loads is not among the sources. Its text is taken from the
  document the unit tests expect (\<^verbatim>\<open>tests/unit/test_charm.py\<close>) and the artifact of
  section 6 of the specification, with a variable at each of the four places where
  \<^verbatim>\<open>_write_config_file\<close> passes a value. The logger section is one entry for each of
  the module names, in the order of the expected document.
\<close>

definition logger_modules :: "string list" where
  "logger_modules =
     [''AMF'', ''AUSF'', ''Aper'', ''CommonConsumerTest'', ''FSM'', ''MongoDBLibrary'',
      ''N3IWF'', ''NAS'', ''NGAP'', ''NRF'', ''NamfComm'', ''NamfEventExposure'',
      ''NsmfPDUSession'', ''NudrDataRepository'', ''OpenApi'', ''PCF'', ''PFCP'',
      ''PathUtil'', ''SMF'', ''UDM'', ''UDR'', ''WEBUI'']"

definition logger_entry :: "string \<Rightarrow> string" where
  "logger_entry m =
     ''\<newline>  '' @ m @ '':\<newline>    ReportCaller: false\<newline>    debugLevel: info''"

definition template_head :: string where
  "template_head =
     ''configuration:\<newline>  defaultBdtRefId: BdtPolicyId-\<newline>  mongodb:\<newline>    name: ''"

definition template_plmn_sbi :: string where
  \<open>template_plmn_sbi =
     ''\<newline>  pcfName: PCF\<newline>  plmnList:\<newline>  - plmnId:\<newline>      mcc: "208"\<newline>      mnc: "93"\<newline>  - plmnId:\<newline>      mcc: "333"\<newline>      mnc: "88"\<newline>  sbi:\<newline>    bindingIPv4: 0.0.0.0\<newline>    port: 29507\<newline>    registerIPv4: ''\<close>

definition template_services :: string where
  "template_services =
     ''\<newline>    scheme: http\<newline>  serviceList:\<newline>  - serviceName: npcf-am-policy-control\<newline>  - serviceName: npcf-smpolicycontrol\<newline>    suppFeat: 3fff\<newline>  - serviceName: npcf-bdtpolicycontrol\<newline>  - serviceName: npcf-policyauthorization\<newline>    suppFeat: 3\<newline>  - serviceName: npcf-eventexposure\<newline>  - serviceName: npcf-ue-policy-control\<newline>info:\<newline>  description: PCF initial local configuration\<newline>  version: 1.0.0\<newline>logger:''"

definition pcfcfg_template :: "segment list" where
  "pcfcfg_template =
     [Text template_head, Var ''database_name'',
      Text ''\<newline>    url: '', Var ''database_url'',
      Text ''\<newline>  nrfUri: '', Var ''nrf_url'',
      Text template_plmn_sbi, Var ''pcf_hostname'',
      Text template_services,
      Text (concat (map logger_entry logger_modules))]"

section \<open>The world the handlers run in\<close>

datatype status =
    ActiveStatus string
  | BlockedStatus string
  | WaitingStatus string
  | MaintenanceStatus string
  | UnknownStatus

text \<open>
  The four events the charm observes. \<^verbatim>\<open>DatabaseCreatedEvent.uris\<close> is an optional
  string, \<^verbatim>\<open>NRFAvailableEvent.url\<close> a string.
\<close>

datatype event =
    PebbleReadyEvent
  | RelationJoinedEvent
  | DatabaseCreatedEvent "string option"
  | NRFAvailableEvent string

record service =
  override :: string
  startup :: string
  command :: string
  environment :: "(string \<times> string) list"

record layer =
  summary :: string
  description :: string
  services :: "(string \<times> service) list"

text \<open>The calls a handler makes that act on a collaborator, in the order it makes them.\<close>

datatype call =
    SetStatus status
  | Defer event
  | RenderTemplate "(string \<times> string) list"
  | Push string string
  | AddLayer string layer bool
  | Replan

text \<open>
  What the collaborators answer and hold. The first group is read-only for the charm:
  \<open>can_connect\<close> is \<^verbatim>\<open>Container.can_connect()\<close>, \<open>get_relation\<close> is
  \<^verbatim>\<open>Model.get_relation(name)\<close> (the relation's id), \<open>get_nrf_url\<close> is
  \<^verbatim>\<open>NRFRequires.get_nrf_url()\<close>, \<open>is_resource_created\<close>, \<open>relations\<close> and
  \<open>fetch_relation_data\<close> are those of \<^verbatim>\<open>DatabaseRequires\<close>, \<open>app_name\<close> and
  \<open>model_name\<close> are \<^verbatim>\<open>model.app.name\<close> and \<^verbatim>\<open>model.name\<close>, and
  \<open>private_address\<close> is the decoded output of \<^verbatim>\<open>unit-get private-address\<close>, ASCII
  text that usually ends with a newline. The second group is what the charm changes: the container's files, the layers
  of its Pebble plan, the services Pebble runs (each with the configuration it was started
  with) and how many times Pebble started or restarted one, the unit status and the
  deferred events. \<open>journal\<close> records the acting calls.
\<close>

record world =
  can_connect :: bool
  get_relation :: "string \<Rightarrow> nat option"
  get_nrf_url :: "string option"
  is_resource_created :: bool
  relations :: "nat list"
  fetch_relation_data :: "nat \<rightharpoonup> (string \<rightharpoonup> string)"
  app_name :: string
  model_name :: string
  private_address :: string
  files :: "string \<rightharpoonup> string"
  layers :: "(string \<times> layer) list"
  running :: "string \<rightharpoonup> service"
  starts :: nat
  status :: status
  deferred :: "event list"
  journal :: "call list"

subsection \<open>Status and deferral\<close>

definition set_status :: "status \<Rightarrow> world \<Rightarrow> world" where
  "set_status st w = w\<lparr>status := st, journal := journal w @ [SetStatus st]\<rparr>"

definition defer_event :: "event \<Rightarrow> world \<Rightarrow> world" where
  "defer_event ev w = w\<lparr>deferred := deferred w @ [ev], journal := journal w @ [Defer ev]\<rparr>"

subsection \<open>The container: files and the Pebble plan\<close>

definition push :: "string \<Rightarrow> string \<Rightarrow> world \<Rightarrow> world" where
  "push path source w =
     w\<lparr>files := (files w)(path \<mapsto> source), journal := journal w @ [Push path source]\<rparr>"

definition exists_path :: "string \<Rightarrow> world \<Rightarrow> bool" where
  "exists_path path w = (files w path \<noteq> None)"

text \<open>
  Pebble's layer combination. A service of the new layer with \<^verbatim>\<open>override: replace\<close>
  replaces the service of that name; with \<^verbatim>\<open>override: merge\<close> its non-empty fields
  overwrite those of the existing service and its environment is added to the existing one.
  Any other \<^verbatim>\<open>override\<close> is refused.
\<close>

definition valid_override :: "service \<Rightarrow> bool" where
  "valid_override s = (override s = ''replace'' \<or> override s = ''merge'')"

definition merge_service :: "service \<Rightarrow> service \<Rightarrow> service" where
  "merge_service old new =
     \<lparr>override = (if override new = [] then override old else override new),
      startup = (if startup new = [] then startup old else startup new),
      command = (if command new = [] then command old else command new),
      environment = fold (\<lambda>(k, v). AList.update k v) (environment new) (environment old)\<rparr>"

definition combine_service :: "string \<times> service \<Rightarrow> (string \<times> service) list \<Rightarrow> (string \<times> service) list" where
  "combine_service ns acc =
     (case ns of (name, s) \<Rightarrow>
        if override s = ''replace'' then AList.update name s acc
        else (case map_of acc name of
                None \<Rightarrow> AList.update name s acc
              | Some old \<Rightarrow> AList.update name (merge_service old s) acc))"

definition combine_layers :: "layer \<Rightarrow> layer \<Rightarrow> layer" where
  "combine_layers old new =
     \<lparr>summary = summary new, description = description new,
      services = fold combine_service (services new) (services old)\<rparr>"

text \<open>
  \<^verbatim>\<open>Container.add_layer(label, layer, combine=True)\<close>: a layer with a new label is
  appended, a layer whose label exists is combined into the existing one.
\<close>

definition apply_layer :: "string \<Rightarrow> layer \<Rightarrow> (string \<times> layer) list \<Rightarrow> (string \<times> layer) list" where
  "apply_layer label l ls =
     (case map_of ls label of
        None \<Rightarrow> ls @ [(label, l)]
      | Some old \<Rightarrow> AList.update label (combine_layers old l) ls)"

definition add_layer :: "string \<Rightarrow> layer \<Rightarrow> world \<Rightarrow> error + world" where
  "add_layer label l w =
     (if \<not> list_all (\<lambda>(name, s). valid_override s) (services l) then Inl PebbleError
      else Inr (w\<lparr>layers := apply_layer label l (layers w),
                  journal := journal w @ [AddLayer label l True]\<rparr>))"

text \<open>The plan: the services of all layers, combined in the order of the layers.\<close>

definition plan_services :: "(string \<times> layer) list \<Rightarrow> (string \<times> service) list" where
  "plan_services ls = fold (\<lambda>(label, l). fold combine_service (services l)) ls []"

text \<open>
  \<^verbatim>\<open>Container.replan()\<close>: Pebble restarts every running service whose configuration
  differs from the plan's and starts every service with \<^verbatim>\<open>startup: enabled\<close> that
  is not running; a service already running with the plan's configuration is left alone.
\<close>

definition replan_service :: "string \<times> service \<Rightarrow> (string \<rightharpoonup> service) \<times> nat \<Rightarrow> (string \<rightharpoonup> service) \<times> nat" where
  "replan_service ns st =
     (case ns of (name, s) \<Rightarrow>
      case st of (run, n) \<Rightarrow>
        (case run name of
           Some cur \<Rightarrow> if cur = s then (run, n) else (run(name \<mapsto> s), Suc n)
         | None \<Rightarrow> if startup s = ''enabled'' then (run(name \<mapsto> s), Suc n) else (run, n)))"

definition replan :: "world \<Rightarrow> world" where
  "replan w =
     (case fold replan_service (plan_services (layers w)) (running w, starts w) of
        (run, n) \<Rightarrow> w\<lparr>running := run, starts := n, journal := journal w @ [Replan]\<rparr>)"

section \<open>The charm\<close>

subsection \<open>Readiness properties\<close>

definition relation_created :: "string \<Rightarrow> world \<Rightarrow> bool" where
  "relation_created relation_name w =
     (case get_relation w relation_name of None \<Rightarrow> False | Some _ \<Rightarrow> True)"

definition database_relation_is_created :: "world \<Rightarrow> bool" where
  "database_relation_is_created w = relation_created ''database'' w"

definition nrf_relation_is_created :: "world \<Rightarrow> bool" where
  "nrf_relation_is_created w = relation_created ''nrf'' w"

definition nrf_data_is_available :: "world \<Rightarrow> bool" where
  "nrf_data_is_available w =
     (case get_nrf_url w of None \<Rightarrow> False | Some u \<Rightarrow> if u = [] then False else True)"

definition database_is_available :: "world \<Rightarrow> bool" where
  "database_is_available w = is_resource_created w"

definition database_data :: "world \<Rightarrow> error + (string \<rightharpoonup> string)" where
  "database_data w =
     (if \<not> database_is_available w then Inl (RuntimeError ''Database is not available'')
      else (case index0 (relations w) of
              Inl e \<Rightarrow> Inl e
            | Inr rel \<Rightarrow>
                (case fetch_relation_data w rel of
                   None \<Rightarrow> Inl (KeyError ''relation id'')
                 | Some d \<Rightarrow> Inr d)))"

definition config_file_is_written :: "world \<Rightarrow> bool" where
  "config_file_is_written w = exists_path config_path w"

subsection \<open>Identity, environment and the Pebble layer\<close>

definition pod_ip :: "world \<Rightarrow> error + nat list" where
  "pod_ip w = IPv4Address (strip (private_address w))"

definition pcf_hostname :: "world \<Rightarrow> string" where
  "pcf_hostname w = app_name w @ ''.'' @ model_name w @ ''.svc.cluster.local''"

definition environment_variables :: "world \<Rightarrow> error + (string \<times> string) list" where
  "environment_variables w =
     (case pod_ip w of
        Inl e \<Rightarrow> Inl e
      | Inr ip \<Rightarrow>
          Inr [(''GRPC_GO_LOG_VERBOSITY_LEVEL'', ''99''),
               (''GRPC_GO_LOG_SEVERITY_LEVEL'', ''info''),
               (''GRPC_TRACE'', ''all''),
               (''GRPC_VERBOSITY'', ''debug''),
               (''POD_IP'', str_ipv4 ip),
               (''MANAGED_BY_CONFIG_POD'', ''true'')])"

definition pebble_layer :: "world \<Rightarrow> error + layer" where
  "pebble_layer w =
     (case environment_variables w of
        Inl e \<Rightarrow> Inl e
      | Inr env \<Rightarrow>
          Inr \<lparr>summary = ''pcf layer'',
               description = ''pebble config layer for pcf'',
               services =
                 [(''pcf'',
                   \<lparr>override = ''replace'',
                    startup = ''enabled'',
                    command = ''./pcf --pcfcfg '' @ BASE_CONFIG_PATH @ ''/'' @ CONFIG_FILE_NAME,
                    environment = env\<rparr>)]\<rparr>)"

subsection \<open>Writing the configuration file\<close>

definition render_context :: "string \<Rightarrow> string \<Rightarrow> world \<Rightarrow> (string \<times> string) list" where
  "render_context default_database_url nrf_url w =
     [(''nrf_url'', nrf_url),
      (''pcf_hostname'', pcf_hostname w),
      (''database_name'', DATABASE_NAME),
      (''database_url'', default_database_url)]"

definition write_config_file :: "string \<Rightarrow> string \<Rightarrow> world \<Rightarrow> world" where
  "write_config_file default_database_url nrf_url w =
     (let ctx = render_context default_database_url nrf_url w;
          content = render pcfcfg_template ctx
      in push config_path content (w\<lparr>journal := journal w @ [RenderTemplate ctx]\<rparr>))"

subsection \<open>The event handlers\<close>

text \<open>
  A handler run ends with \<open>Inr\<close> and the world it leaves when it returns, and with
  \<open>Inl\<close>, the exception and the world at that moment when it raises: what the handler did
  before raising stays done.
\<close>

type_synonym outcome = "(error \<times> world) + world"

definition on_pcf_pebble_ready :: "event \<Rightarrow> world \<Rightarrow> outcome" where
  "on_pcf_pebble_ready ev w =
     (if \<not> database_relation_is_created w then
        Inr (set_status (BlockedStatus ''Waiting for database relation to be created'') w)
      else if \<not> nrf_relation_is_created w then
        Inr (set_status (BlockedStatus ''Waiting for NRF relation to be created'') w)
      else if \<not> can_connect w then
        Inr (defer_event ev (set_status (WaitingStatus ''Waiting for container to be ready'') w))
      else if \<not> config_file_is_written w then
        Inr (set_status (WaitingStatus ''Waiting for config file to be written'') w)
      else
        (case pebble_layer w of
           Inl e \<Rightarrow> Inl (e, w)
         | Inr l \<Rightarrow>
             (case add_layer ''pcf'' l w of
                Inl e \<Rightarrow> Inl (e, w)
              | Inr w1 \<Rightarrow> Inr (set_status (ActiveStatus []) (replan w1)))))"

definition on_database_created :: "string option \<Rightarrow> world \<Rightarrow> outcome" where
  "on_database_created uris w =
     (let ev = DatabaseCreatedEvent uris in
      if \<not> can_connect w then
        Inr (defer_event ev (set_status (WaitingStatus ''Waiting for container to be ready'') w))
      else if \<not> nrf_relation_is_created w then
        Inr (defer_event ev (set_status (BlockedStatus ''Waiting for NRF relation to be created'') w))
      else if \<not> nrf_data_is_available w then
        Inr (defer_event ev (set_status (WaitingStatus ''Waiting for NRF data to be available'') w))
      else
        (case first_uri uris of
           Inl e \<Rightarrow> Inl (e, w)
         | Inr u \<Rightarrow>
             on_pcf_pebble_ready ev (write_config_file u (jinja_str (get_nrf_url w)) w)))"

definition on_nrf_available :: "string \<Rightarrow> world \<Rightarrow> outcome" where
  "on_nrf_available url w =
     (let ev = NRFAvailableEvent url in
      if \<not> can_connect w then
        Inr (defer_event ev (set_status (WaitingStatus ''Waiting for container to be ready'') w))
      else if \<not> database_relation_is_created w then
        Inr (defer_event ev (set_status (BlockedStatus ''Waiting for database relation to be created'') w))
      else if \<not> database_is_available w then
        Inr (defer_event ev (set_status (WaitingStatus ''Waiting for database to be available'') w))
      else
        (case database_data w of
           Inl e \<Rightarrow> Inl (e, w)
         | Inr d \<Rightarrow>
             (case getitem d ''uris'' of
                Inl e \<Rightarrow> Inl (e, w)
              | Inr s \<Rightarrow>
                  (case index0 (split CHR '','' s) of
                     Inl e \<Rightarrow> Inl (e, w)
                   | Inr u \<Rightarrow> on_pcf_pebble_ready ev (write_config_file u url w)))))"

text \<open>The observers registered in \<^verbatim>\<open>__init__\<close>.\<close>

fun dispatch :: "event \<Rightarrow> world \<Rightarrow> outcome" where
  "dispatch PebbleReadyEvent w = on_pcf_pebble_ready PebbleReadyEvent w"
| "dispatch RelationJoinedEvent w = on_pcf_pebble_ready RelationJoinedEvent w"
| "dispatch (DatabaseCreatedEvent uris) w = on_database_created uris w"
| "dispatch (NRFAvailableEvent url) w = on_nrf_available url w"

section \<open>Reading the journal\<close>

text \<open>The statuses a sequence of calls assigns, in order.\<close>

fun status_assignments :: "call list \<Rightarrow> status list" where
  "status_assignments [] = []"
| "status_assignments (SetStatus st # cs) = st # status_assignments cs"
| "status_assignments (c # cs) = status_assignments cs"

text \<open>The three statuses the charm imports from \<^verbatim>\<open>ops.model\<close>.\<close>

fun reported_status :: "status \<Rightarrow> bool" where
  "reported_status (ActiveStatus m) = True"
| "reported_status (BlockedStatus m) = True"
| "reported_status (WaitingStatus m) = True"
| "reported_status st = False"

text \<open>
  The status that section 4.3 of the specification gives each branch, in the words of the
  charm's messages. The reconciliation procedure reports the first of: database relation
  missing, NRF relation missing, container not reachable, configuration file not written;
  and Active when none applies.
\<close>

definition reconciliation_status :: "world \<Rightarrow> status" where
  "reconciliation_status w =
     (if \<not> database_relation_is_created w then
        BlockedStatus ''Waiting for database relation to be created''
      else if \<not> nrf_relation_is_created w then
        BlockedStatus ''Waiting for NRF relation to be created''
      else if \<not> can_connect w then WaitingStatus ''Waiting for container to be ready''
      else if \<not> config_file_is_written w then
        WaitingStatus ''Waiting for config file to be written''
      else ActiveStatus [])"

text \<open>
  A data-changed handler first reports the first of: container not reachable, the other
  relation missing, the other dependency's data not available. Otherwise it writes the file
  and reconciles: in that world the container is reachable, the other relation exists and the
  file is written, so the result is Blocked on its own relation when that is missing, and
  Active otherwise.
\<close>

definition branch_status :: "event \<Rightarrow> world \<Rightarrow> status" where
  "branch_status ev w =
     (case ev of
        PebbleReadyEvent \<Rightarrow> reconciliation_status w
      | RelationJoinedEvent \<Rightarrow> reconciliation_status w
      | DatabaseCreatedEvent uris \<Rightarrow>
          if \<not> can_connect w then WaitingStatus ''Waiting for container to be ready''
          else if \<not> nrf_relation_is_created w then
            BlockedStatus ''Waiting for NRF relation to be created''
          else if \<not> nrf_data_is_available w then
            WaitingStatus ''Waiting for NRF data to be available''
          else if \<not> database_relation_is_created w then
            BlockedStatus ''Waiting for database relation to be created''
          else ActiveStatus []
      | NRFAvailableEvent url \<Rightarrow>
          if \<not> can_connect w then WaitingStatus ''Waiting for container to be ready''
          else if \<not> database_relation_is_created w then
            BlockedStatus ''Waiting for database relation to be created''
          else if \<not> database_is_available w then
            WaitingStatus ''Waiting for database to be available''
          else if \<not> nrf_relation_is_created w then
            BlockedStatus ''Waiting for NRF relation to be created''
          else ActiveStatus [])"


text \<open>The world at the end of a handler run, whether it returned or raised.\<close>

definition final_world :: "outcome \<Rightarrow> world" where
  "final_world r = (case r of Inl (e, w) \<Rightarrow> w | Inr w \<Rightarrow> w)"

section \<open>Example worlds\<close>

text \<open>
  The worlds of the unit tests: application \<^verbatim>\<open>pcf-operator\<close> in model
  \<^verbatim>\<open>whatever\<close>, relation 0 to the database and relation 1 to the NRF.
\<close>

definition quiet_world :: world where
  "quiet_world =
     \<lparr>can_connect = False, get_relation = (\<lambda>n. None), get_nrf_url = None,
      is_resource_created = False, relations = [], fetch_relation_data = Map.empty,
      app_name = ''pcf-operator'', model_name = ''whatever'', private_address = ''1.1.1.1'',
      files = Map.empty, layers = [], running = Map.empty, starts = 0,
      status = MaintenanceStatus [], deferred = [], journal = []\<rparr>"

definition database_joined_world :: world where
  "database_joined_world =
     quiet_world\<lparr>get_relation := (\<lambda>n. if n = ''database'' then Some 0 else None)\<rparr>"

definition both_joined_world :: world where
  "both_joined_world =
     quiet_world\<lparr>get_relation :=
       (\<lambda>n. if n = ''database'' then Some 0 else if n = ''nrf'' then Some 1 else None)\<rparr>"

definition database_payload :: "string \<rightharpoonup> string" where
  "database_payload =
     map_of [(''username'', ''banana''), (''password'', ''pizza''),
             (''uris'', ''1.2.3.4:1234,5.6.7.8:1111'')]"

definition ready_world :: world where
  "ready_world =
     both_joined_world\<lparr>can_connect := True, get_nrf_url := Some ''http://1.1.1.1'',
       is_resource_created := True, relations := [0],
       fetch_relation_data := [0 \<mapsto> database_payload]\<rparr>"

definition blank_payload :: "string \<rightharpoonup> string" where
  "blank_payload =
     map_of [(''username'', ''banana''), (''password'', ''pizza''), (''uris'', [])]"

definition blank_uris_world :: world where
  "blank_uris_world = ready_world\<lparr>fetch_relation_data := [0 \<mapsto> blank_payload]\<rparr>"

definition configured_world :: world where
  "configured_world = ready_world\<lparr>files := [config_path \<mapsto> ''configuration: {}'']\<rparr>"

text \<open>The same world in a cluster that gives the unit an IPv6 address.\<close>

definition ipv6_world :: world where
  "ipv6_world = configured_world\<lparr>private_address := ''fd00::1''\<rparr>"

section \<open>Facts about the primitives\<close>

lemma set_status_fields [simp]:
  "journal (set_status st w) = journal w @ [SetStatus st]"
  "status (set_status st w) = st"
  "deferred (set_status st w) = deferred w"
  "files (set_status st w) = files w"
  "layers (set_status st w) = layers w"
  by (simp_all add: set_status_def)

lemma defer_event_fields [simp]:
  "journal (defer_event ev w) = journal w @ [Defer ev]"
  "status (defer_event ev w) = status w"
  "deferred (defer_event ev w) = deferred w @ [ev]"
  "files (defer_event ev w) = files w"
  "layers (defer_event ev w) = layers w"
  by (simp_all add: defer_event_def)

lemma replan_fields [simp]:
  "journal (replan w) = journal w @ [Replan]"
  "status (replan w) = status w"
  "deferred (replan w) = deferred w"
  "files (replan w) = files w"
  "layers (replan w) = layers w"
  by (simp_all add: replan_def split: prod.splits)

lemma status_assignments_append [simp]:
  "status_assignments (xs @ ys) = status_assignments xs @ status_assignments ys"
  by (induction xs rule: status_assignments.induct) simp_all

lemma readiness_can_connect_update [simp]:
  "database_relation_is_created (w\<lparr>can_connect := b\<rparr>) = database_relation_is_created w"
  "nrf_relation_is_created (w\<lparr>can_connect := b\<rparr>) = nrf_relation_is_created w"
  by (simp_all add: database_relation_is_created_def nrf_relation_is_created_def
      relation_created_def)

lemma example_relations:
  "database_relation_is_created database_joined_world"
  "\<not> nrf_relation_is_created database_joined_world"
  "database_relation_is_created both_joined_world"
  "nrf_relation_is_created both_joined_world"
  "database_relation_is_created ready_world"
  "nrf_relation_is_created ready_world"
  "database_relation_is_created configured_world"
  "nrf_relation_is_created configured_world"
  "database_relation_is_created blank_uris_world"
  "nrf_relation_is_created blank_uris_world"
  "database_relation_is_created ipv6_world"
  "nrf_relation_is_created ipv6_world"
  by (simp_all add: database_relation_is_created_def nrf_relation_is_created_def
      relation_created_def database_joined_world_def both_joined_world_def ready_world_def
      configured_world_def blank_uris_world_def ipv6_world_def quiet_world_def)

subsection \<open>The layer the charm declares\<close>

lemma pebble_layer_of_pod_ip:
  "pod_ip v = Inl e \<Longrightarrow> pebble_layer v = Inl e"
  "pod_ip v = Inr ip \<Longrightarrow> \<exists>l. pebble_layer v = Inr l"
  by (simp_all add: pebble_layer_def environment_variables_def)

lemma pebble_layer_service:
  assumes "pebble_layer v = Inr l"
  shows "\<exists>s ip. pod_ip v = Inr ip \<and> services l = [(''pcf'', s)] \<and> override s = ''replace''
       \<and> startup s = ''enabled'' \<and> command s = ''./pcf --pcfcfg /etc/pcf/pcfcfg.conf''
       \<and> environment s =
           [(''GRPC_GO_LOG_VERBOSITY_LEVEL'', ''99''),
            (''GRPC_GO_LOG_SEVERITY_LEVEL'', ''info''),
            (''GRPC_TRACE'', ''all''),
            (''GRPC_VERBOSITY'', ''debug''),
            (''POD_IP'', str_ipv4 ip),
            (''MANAGED_BY_CONFIG_POD'', ''true'')]"
  using assms
  by (auto simp add: pebble_layer_def environment_variables_def BASE_CONFIG_PATH_def
      CONFIG_FILE_NAME_def split: sum.splits)

lemma pebble_layer_valid:
  "pebble_layer v = Inr l \<Longrightarrow> list_all (\<lambda>(name, s). valid_override s) (services l)"
  using pebble_layer_service [of v l] by (auto simp add: valid_override_def)

lemma add_layer_pebble_layer:
  "pebble_layer v = Inr l \<Longrightarrow>
   add_layer ''pcf'' l w =
     Inr (w\<lparr>layers := apply_layer ''pcf'' l (layers w),
            journal := journal w @ [AddLayer ''pcf'' l True]\<rparr>)"
  using pebble_layer_valid [of v l] by (simp add: add_layer_def)

subsection \<open>The reconciliation procedure, call by call\<close>

lemma write_config_file_fields [simp]:
  "journal (write_config_file d n w) = journal w @
     [RenderTemplate (render_context d n w),
      Push config_path (render pcfcfg_template (render_context d n w))]"
  "files (write_config_file d n w) =
     (files w)(config_path \<mapsto> render pcfcfg_template (render_context d n w))"
  "status (write_config_file d n w) = status w"
  "deferred (write_config_file d n w) = deferred w"
  "can_connect (write_config_file d n w) = can_connect w"
  "database_relation_is_created (write_config_file d n w) = database_relation_is_created w"
  "nrf_relation_is_created (write_config_file d n w) = nrf_relation_is_created w"
  "config_file_is_written (write_config_file d n w)"
  "pod_ip (write_config_file d n w) = pod_ip w"
  by (simp_all add: write_config_file_def push_def Let_def database_relation_is_created_def
      nrf_relation_is_created_def relation_created_def config_file_is_written_def
      exists_path_def pod_ip_def)

lemma on_pcf_pebble_ready_success:
  assumes "database_relation_is_created w" and "nrf_relation_is_created w" and "can_connect w"
    and "config_file_is_written w" and "pebble_layer w = Inr l"
  shows "on_pcf_pebble_ready ev w =
     Inr (set_status (ActiveStatus [])
           (replan (w\<lparr>layers := apply_layer ''pcf'' l (layers w),
                      journal := journal w @ [AddLayer ''pcf'' l True]\<rparr>)))"
  using assms by (simp add: on_pcf_pebble_ready_def add_layer_pebble_layer)

lemma on_pcf_pebble_ready_raises:
  assumes "database_relation_is_created w" and "nrf_relation_is_created w" and "can_connect w"
    and "config_file_is_written w" and "pebble_layer w = Inl e"
  shows "on_pcf_pebble_ready ev w = Inl (e, w)"
  using assms by (simp add: on_pcf_pebble_ready_def)

lemma on_pcf_pebble_ready_Inl:
  "on_pcf_pebble_ready ev w = Inl (e, w') \<Longrightarrow> w' = w"
  by (auto simp add: on_pcf_pebble_ready_def add_layer_pebble_layer
      split: if_splits sum.splits)

lemma on_pcf_pebble_ready_journal:
  assumes "on_pcf_pebble_ready ev w = Inr w'"
  shows "\<exists>calls. journal w' = journal w @ calls
      \<and> status_assignments calls = [reconciliation_status w]
      \<and> status w' = reconciliation_status w
      \<and> (\<forall>p s. Push p s \<notin> set calls) \<and> (\<forall>c. RenderTemplate c \<notin> set calls)
      \<and> files w' = files w"
  using assms
  by (auto simp add: on_pcf_pebble_ready_def reconciliation_status_def add_layer_pebble_layer
      split: if_splits sum.splits)


lemma final_world_on_pcf_pebble_ready:
  "\<exists>calls. journal (final_world (on_pcf_pebble_ready ev w)) = journal w @ calls
      \<and> files (final_world (on_pcf_pebble_ready ev w)) = files w"
proof (cases "on_pcf_pebble_ready ev w")
  case (Inl failure)
  then obtain e w' where "on_pcf_pebble_ready ev w = Inl (e, w')"
    by (cases failure) simp
  with on_pcf_pebble_ready_Inl [of ev w e w'] show ?thesis
    by (simp add: final_world_def)
next
  case (Inr w')
  with on_pcf_pebble_ready_journal [OF Inr] show ?thesis
    by (auto simp add: final_world_def)
qed

lemma on_database_created_writes:
  assumes "can_connect w" and "nrf_relation_is_created w" and "get_nrf_url w = Some n"
    and "n \<noteq> []" and "first_uri uris = Inr u"
  shows "on_database_created uris w =
           on_pcf_pebble_ready (DatabaseCreatedEvent uris) (write_config_file u n w)"
  using assms by (simp add: on_database_created_def nrf_data_is_available_def jinja_str_def)

lemma on_nrf_available_writes:
  assumes "can_connect w" and "database_relation_is_created w" and "database_data w = Inr d"
    and "d ''uris'' = Some s" and "index0 (split CHR '','' s) = Inr u"
  shows "on_nrf_available url w =
           on_pcf_pebble_ready (NRFAvailableEvent url) (write_config_file u url w)"
proof -
  from assms(3) have "database_is_available w"
    by (auto simp add: database_data_def split: if_splits)
  with assms show ?thesis
    by (simp add: on_nrf_available_def getitem_def)
qed

subsection \<open>Splitting and joining\<close>

lemma split_no_sep: "sep \<notin> set u \<Longrightarrow> split sep u = [u]"
  by (induction u) auto

lemma split_first: "sep \<notin> set u \<Longrightarrow> split sep (u @ sep # rest) = u # split sep rest"
  by (induction u) auto

lemma split_join:
  "xs \<noteq> [] \<Longrightarrow> \<forall>x\<in>set xs. sep \<notin> set x \<Longrightarrow> split sep (join [sep] xs) = xs"
  by (induction "[sep]" xs rule: join.induct) (auto simp add: split_no_sep split_first)

lemma first_uri_join:
  "CHR '','' \<notin> set u \<Longrightarrow> first_uri (Some (join '','' (u # us))) = Inr u"
  by (cases us) (simp_all add: first_uri_def index0_def split_no_sep split_first)

lemma index0_split_join:
  "CHR '','' \<notin> set u \<Longrightarrow> index0 (split CHR '','' (join '','' (u # us))) = Inr u"
  using first_uri_join [of u us] by (simp add: first_uri_def)

lemma render_pcfcfg:
  "render pcfcfg_template (render_context d n w) =
     template_head @ DATABASE_NAME @ ''\<newline>    url: '' @ d @ ''\<newline>  nrfUri: '' @ n
       @ template_plmn_sbi @ pcf_hostname w @ template_services
       @ concat (map logger_entry logger_modules)"
  by (simp add: render_def pcfcfg_template_def render_context_def)

subsection \<open>The layer of the charm in the plan\<close>

lemma apply_layer_single:
  assumes "services new = [(name, s)]" and "override s = ''replace''"
  shows "\<exists>l. map_of (apply_layer label new ls) label = Some l
           \<and> summary l = summary new \<and> description l = description new
           \<and> map_of (services l) name = Some s"
proof (cases "map_of ls label")
  case None
  with assms show ?thesis
    by (simp add: apply_layer_def map_add_def)
next
  case (Some old)
  with assms show ?thesis
    by (simp add: apply_layer_def combine_layers_def combine_service_def update_conv')
qed

lemma combine_service_keys:
  "distinct (map fst acc) \<Longrightarrow> distinct (map fst (combine_service ns acc))"
  by (cases ns) (simp add: combine_service_def distinct_update split: option.splits)

lemma fold_combine_service_keys:
  "distinct (map fst acc) \<Longrightarrow> distinct (map fst (fold combine_service xs acc))"
  by (induction xs arbitrary: acc) (simp_all add: combine_service_keys)

lemma fold_layers_keys:
  "distinct (map fst acc) \<Longrightarrow>
   distinct (map fst (fold (\<lambda>(label, l). fold combine_service (services l)) ls acc))"
  by (induction ls arbitrary: acc) (auto simp add: fold_combine_service_keys)

lemma plan_services_keys: "distinct (map fst (plan_services ls))"
  by (simp add: plan_services_def fold_layers_keys)

lemma replan_service_idem: "replan_service ns (replan_service ns st) = replan_service ns st"
  by (cases ns; cases st) (simp add: replan_service_def split: option.splits)

lemma replan_service_commute:
  "fst x \<noteq> fst y \<Longrightarrow>
   replan_service x (replan_service y st) = replan_service y (replan_service x st)"
  by (cases x; cases y; cases st)
    (auto simp add: replan_service_def fun_upd_twist split: option.splits)

lemma replan_service_fold_commute:
  "fst x \<notin> fst ` set xs \<Longrightarrow>
   replan_service x (fold replan_service xs st) = fold replan_service xs (replan_service x st)"
proof (induction xs arbitrary: st)
  case Nil
  then show ?case by simp
next
  case (Cons y ys)
  then have "fst y \<noteq> fst x" and "fst x \<notin> fst ` set ys"
    by auto
  with Cons.IH [of "replan_service y st"] replan_service_commute [of y x st]
  show ?case by simp
qed

lemma fold_replan_service_idem:
  "distinct (map fst xs) \<Longrightarrow>
   fold replan_service xs (fold replan_service xs st) = fold replan_service xs st"
proof (induction xs arbitrary: st)
  case Nil
  then show ?case by simp
next
  case (Cons x xs)
  then have fresh: "fst x \<notin> fst ` set xs" and rest: "distinct (map fst xs)"
    by auto
  have "fold replan_service (x # xs) (fold replan_service (x # xs) st)
      = fold replan_service xs (replan_service x (fold replan_service xs (replan_service x st)))"
    by simp
  also have "\<dots> = fold replan_service xs
      (fold replan_service xs (replan_service x (replan_service x st)))"
    by (simp add: replan_service_fold_commute [OF fresh])
  also have "\<dots> = fold replan_service xs (replan_service x st)"
    by (simp add: replan_service_idem Cons.IH [OF rest])
  finally show ?case by simp
qed

lemma combine_layers_replace_idem:
  assumes "services new = [(name, s)]" and "override s = ''replace''"
  shows "combine_layers (combine_layers old new) new = combine_layers old new"
    and "combine_layers new new = new"
  using assms by (simp_all add: combine_layers_def combine_service_def)

lemma apply_layer_replace_idem:
  assumes "services new = [(name, s)]" and "override s = ''replace''"
  shows "apply_layer label new (apply_layer label new ls) = apply_layer label new ls"
proof (cases "map_of ls label")
  case None
  then have "map_of (ls @ [(label, new)]) label = Some new"
    by (simp add: map_add_def)
  with None combine_layers_replace_idem(2) [OF assms] show ?thesis
    by (simp add: apply_layer_def update_triv)
next
  case (Some old)
  then have "map_of (AList.update label (combine_layers old new) ls) label
      = Some (combine_layers old new)"
    by (simp add: update_conv')
  with Some combine_layers_replace_idem(1) [OF assms, of old] show ?thesis
    by (simp add: apply_layer_def)
qed

lemma apply_layer_pebble_layer_idem:
  assumes "pebble_layer v = Inr l"
  shows "apply_layer ''pcf'' l (apply_layer ''pcf'' l ls) = apply_layer ''pcf'' l ls"
proof -
  obtain s where "services l = [(''pcf'', s)]" and "override s = ''replace''"
    using pebble_layer_service [OF assms] by blast
  then show ?thesis
    by (rule apply_layer_replace_idem)
qed

lemma replan_again:
  "replan (replan w\<lparr>journal := j\<rparr>) = replan w\<lparr>journal := j @ [Replan]\<rparr>"
proof -
  obtain run n where first:
    "fold replan_service (plan_services (layers w)) (running w, starts w) = (run, n)"
    by (cases "fold replan_service (plan_services (layers w)) (running w, starts w)")
  then have "fold replan_service (plan_services (layers w)) (run, n) = (run, n)"
    using fold_replan_service_idem [OF plan_services_keys, of "layers w" "(running w, starts w)"]
    by simp
  with first show ?thesis
    by (simp add: replan_def)
qed

lemma replan_status_update: "replan (w\<lparr>status := st\<rparr>) = (replan w)\<lparr>status := st\<rparr>"
  by (simp add: replan_def split: prod.splits)

lemma reapply_plan:
  assumes "w1 = set_status st (replan wa)"
  shows "set_status st (replan (w1\<lparr>journal := j\<rparr>))
           = w1\<lparr>journal := j @ [Replan, SetStatus st]\<rparr>"
proof -
  have "w1\<lparr>journal := j\<rparr> = ((replan wa)\<lparr>journal := j\<rparr>)\<lparr>status := st\<rparr>"
    by (simp add: assms set_status_def)
  then have "replan (w1\<lparr>journal := j\<rparr>)
      = ((replan wa)\<lparr>journal := j @ [Replan]\<rparr>)\<lparr>status := st\<rparr>"
    by (simp only: replan_status_update replan_again)
  then show ?thesis
    by (simp add: assms set_status_def)
qed

lemma success_world_reads:
  fixes w :: world and st :: status and ls :: "(string \<times> layer) list" and j :: "call list"
  defines "w1 \<equiv> set_status st (replan (w\<lparr>layers := ls, journal := j\<rparr>))"
  shows "database_relation_is_created w1 = database_relation_is_created w"
    and "nrf_relation_is_created w1 = nrf_relation_is_created w"
    and "can_connect w1 = can_connect w"
    and "config_file_is_written w1 = config_file_is_written w"
    and "pebble_layer w1 = pebble_layer w"
    and "layers w1 = ls"
  by (simp_all add: w1_def set_status_def replan_def database_relation_is_created_def
      nrf_relation_is_created_def relation_created_def config_file_is_written_def
      exists_path_def pebble_layer_def environment_variables_def pod_ip_def split: prod.splits)

subsection \<open>The example worlds\<close>

lemma quiet_address: "IPv4Address (strip ''1.1.1.1'') = Inr [1, 1, 1, 1]"
  by (simp add: strip_def isspace_def IPv4Address_def parse_octet_def isdigit_def
      int_of_digits_def)

lemma ipv6_address: "IPv4Address (strip ''fd00::1'') = Inl AddressValueError"
  by (simp add: strip_def isspace_def IPv4Address_def)

lemma ready_world_reads:
  "can_connect ready_world"
  "get_nrf_url ready_world = Some ''http://1.1.1.1''"
  "nrf_data_is_available ready_world"
  "is_resource_created ready_world"
  "database_data ready_world = Inr database_payload"
  "pcf_hostname ready_world = ''pcf-operator.whatever.svc.cluster.local''"
  "journal ready_world = []"
  "files ready_world = Map.empty"
  "pod_ip ready_world = Inr [1, 1, 1, 1]"
  by (simp_all add: ready_world_def both_joined_world_def quiet_world_def
      nrf_data_is_available_def database_data_def database_is_available_def index0_def
      pcf_hostname_def pod_ip_def quiet_address)


lemma configured_world_reads:
  "can_connect configured_world"
  "config_file_is_written configured_world"
  "journal configured_world = []"
  "deferred configured_world = []"
  "files configured_world = [config_path \<mapsto> ''configuration: {}'']"
  "pod_ip configured_world = Inr [1, 1, 1, 1]"
  by (simp_all add: configured_world_def ready_world_def both_joined_world_def quiet_world_def
      config_file_is_written_def exists_path_def pod_ip_def quiet_address)

lemma ipv6_world_reads:
  "can_connect ipv6_world"
  "config_file_is_written ipv6_world"
  "pod_ip ipv6_world = Inl AddressValueError"
  by (simp_all add: ipv6_world_def configured_world_def ready_world_def both_joined_world_def
      quiet_world_def config_file_is_written_def exists_path_def pod_ip_def ipv6_address)

section \<open>The reconciliation procedure\<close>

text \<open>
  C2. The reconciliation procedure is \<^verbatim>\<open>_on_pcf_pebble_ready\<close>, on which the handlers
  of all four events converge. Whenever it runs, for whichever event, in a world where the
  database relation exists and the NRF relation does not, it returns with the unit status
  Blocked, "Waiting for NRF relation to be created", whether the container is reachable or
  not, and it defers nothing.
\<close>

theorem registry_missing_blocks:
  assumes "database_relation_is_created w" and "\<not> nrf_relation_is_created w"
  shows "\<exists>w'. on_pcf_pebble_ready ev (w\<lparr>can_connect := reachable\<rparr>) = Inr w'
           \<and> status w' = BlockedStatus ''Waiting for NRF relation to be created''
           \<and> deferred w' = deferred w"
  using assms by (simp add: on_pcf_pebble_ready_def)

theorem registry_missing_blocks_witness:
  "database_relation_is_created database_joined_world
   \<and> \<not> nrf_relation_is_created database_joined_world
   \<and> (\<exists>w'. on_pcf_pebble_ready PebbleReadyEvent
                 (database_joined_world\<lparr>can_connect := True\<rparr>) = Inr w'
           \<and> status w' = BlockedStatus ''Waiting for NRF relation to be created''
           \<and> deferred w' = deferred database_joined_world)"
  using example_relations(1,2)
    registry_missing_blocks [OF example_relations(1,2), of PebbleReadyEvent True]
  by blast

text \<open>
  C3. Whenever the reconciliation procedure runs in a world where both relations exist and
  the container is not reachable, it returns with the unit status Waiting, "Waiting for
  container to be ready", and the event that triggered the run is deferred: it is appended
  to the deferred events, and the run makes no other call. The handler of each of the four
  events ends in the same way in such a world.
\<close>

theorem unreachable_runtime_waits_and_defers:
  assumes "database_relation_is_created w" and "nrf_relation_is_created w"
    and "\<not> can_connect w"
  shows "(\<exists>w'. on_pcf_pebble_ready ev w = Inr w'
           \<and> status w' = WaitingStatus ''Waiting for container to be ready''
           \<and> deferred w' = deferred w @ [ev]
           \<and> journal w' = journal w @
                 [SetStatus (WaitingStatus ''Waiting for container to be ready''), Defer ev])
       \<and> (\<exists>w'. dispatch ev w = Inr w'
           \<and> status w' = WaitingStatus ''Waiting for container to be ready''
           \<and> deferred w' = deferred w @ [ev]
           \<and> journal w' = journal w @
                 [SetStatus (WaitingStatus ''Waiting for container to be ready''), Defer ev])"
  using assms
  by (cases ev)
    (simp_all add: on_pcf_pebble_ready_def on_database_created_def on_nrf_available_def)

theorem unreachable_runtime_waits_and_defers_witness:
  "database_relation_is_created both_joined_world
   \<and> nrf_relation_is_created both_joined_world
   \<and> \<not> can_connect both_joined_world
   \<and> (\<exists>w'. on_pcf_pebble_ready RelationJoinedEvent both_joined_world = Inr w'
           \<and> status w' = WaitingStatus ''Waiting for container to be ready''
           \<and> deferred w' = [RelationJoinedEvent])
   \<and> (\<exists>w'. dispatch RelationJoinedEvent both_joined_world = Inr w'
           \<and> status w' = WaitingStatus ''Waiting for container to be ready''
           \<and> deferred w' = [RelationJoinedEvent])"
proof -
  have unreachable: "\<not> can_connect both_joined_world"
    by (simp add: both_joined_world_def quiet_world_def)
  have "deferred both_joined_world = []"
    by (simp add: both_joined_world_def quiet_world_def)
  with unreachable example_relations(3,4)
    unreachable_runtime_waits_and_defers
      [OF example_relations(3,4) unreachable, of RelationJoinedEvent]
  show ?thesis by auto
qed

text \<open>
  C4. Whenever the reconciliation procedure runs in a world where both relations exist, the
  container is reachable and no file exists at \<^verbatim>\<open>/etc/pcf/pcfcfg.conf\<close>, it returns with
  the unit status Waiting, "Waiting for config file to be written"; the deferred events are
  unchanged and the only call of the run is the status assignment.
\<close>

theorem artifact_missing_waits_without_retry:
  assumes "database_relation_is_created w" and "nrf_relation_is_created w"
    and "can_connect w" and "\<not> config_file_is_written w"
  shows "\<exists>w'. on_pcf_pebble_ready ev w = Inr w'
           \<and> status w' = WaitingStatus ''Waiting for config file to be written''
           \<and> deferred w' = deferred w
           \<and> journal w' = journal w @
                 [SetStatus (WaitingStatus ''Waiting for config file to be written'')]"
  using assms by (simp add: on_pcf_pebble_ready_def)

theorem artifact_missing_waits_without_retry_witness:
  "database_relation_is_created ready_world
   \<and> nrf_relation_is_created ready_world
   \<and> can_connect ready_world
   \<and> \<not> config_file_is_written ready_world
   \<and> (\<exists>w'. on_pcf_pebble_ready PebbleReadyEvent ready_world = Inr w'
           \<and> status w' = WaitingStatus ''Waiting for config file to be written''
           \<and> deferred w' = []
           \<and> journal w' = [SetStatus (WaitingStatus ''Waiting for config file to be written'')])"
proof -
  have reachable: "can_connect ready_world"
    by (simp add: ready_world_def)
  have absent: "\<not> config_file_is_written ready_world"
    by (simp add: config_file_is_written_def exists_path_def ready_world_def
        both_joined_world_def quiet_world_def)
  have "deferred ready_world = []" and "journal ready_world = []"
    by (simp_all add: ready_world_def both_joined_world_def quiet_world_def)
  with reachable absent example_relations(5,6)
    artifact_missing_waits_without_retry
      [OF example_relations(5,6) reachable absent, of PebbleReadyEvent]
  show ?thesis by auto
qed

text \<open>
  C7 (amended). When both relations exist, the container is reachable, a file exists at
  \<^verbatim>\<open>/etc/pcf/pcfcfg.conf\<close> and the output of \<^verbatim>\<open>unit-get private-address\<close>, stripped
  of surrounding whitespace, is an IPv4 address, handling the pebble-ready event makes
  exactly three calls: it adds the charm's layer to the plan, replans, and sets the unit
  status Active. Afterwards the plan's layer \<^verbatim>\<open>pcf\<close> declares the service
  \<^verbatim>\<open>pcf\<close> with the charm's command, startup mode and environment, in which
  \<^verbatim>\<open>POD_IP\<close> is that address. Nothing is pushed, no template is rendered, and the files
  of the container, the configuration file among them, are what they were.
\<close>

theorem runtime_ready_applies_plan_without_write:
  assumes "database_relation_is_created w" and "nrf_relation_is_created w"
    and "can_connect w" and "config_file_is_written w" and "pod_ip w = Inr ip"
  shows "\<exists>w' l l' s. dispatch PebbleReadyEvent w = Inr w'
           \<and> pebble_layer w = Inr l
           \<and> journal w' = journal w @
                 [AddLayer ''pcf'' l True, Replan, SetStatus (ActiveStatus [])]
           \<and> map_of (layers w') ''pcf'' = Some l'
           \<and> map_of (services l') ''pcf'' = Some s
           \<and> command s = ''./pcf --pcfcfg /etc/pcf/pcfcfg.conf''
           \<and> startup s = ''enabled''
           \<and> environment s =
                 [(''GRPC_GO_LOG_VERBOSITY_LEVEL'', ''99''),
                  (''GRPC_GO_LOG_SEVERITY_LEVEL'', ''info''),
                  (''GRPC_TRACE'', ''all''),
                  (''GRPC_VERBOSITY'', ''debug''),
                  (''POD_IP'', str_ipv4 ip),
                  (''MANAGED_BY_CONFIG_POD'', ''true'')]
           \<and> status w' = ActiveStatus []
           \<and> files w' = files w
           \<and> deferred w' = deferred w"
proof -
  obtain l where l: "pebble_layer w = Inr l"
    using pebble_layer_of_pod_ip(2) [OF assms(5)] by blast
  from pebble_layer_service [OF l] assms(5)
  obtain s where s: "services l = [(''pcf'', s)]" "override s = ''replace''"
    and described: "startup s = ''enabled''" "command s = ''./pcf --pcfcfg /etc/pcf/pcfcfg.conf''"
      "environment s =
         [(''GRPC_GO_LOG_VERBOSITY_LEVEL'', ''99''),
          (''GRPC_GO_LOG_SEVERITY_LEVEL'', ''info''),
          (''GRPC_TRACE'', ''all''),
          (''GRPC_VERBOSITY'', ''debug''),
          (''POD_IP'', str_ipv4 ip),
          (''MANAGED_BY_CONFIG_POD'', ''true'')]"
    by auto
  from apply_layer_single [OF s, of "''pcf''" "layers w"]
  obtain l' where "map_of (apply_layer ''pcf'' l (layers w)) ''pcf'' = Some l'"
    and "map_of (services l') ''pcf'' = Some s"
    by blast
  with described l show ?thesis
    by (simp add: on_pcf_pebble_ready_success [OF assms(1-4) l])
qed

theorem runtime_ready_applies_plan_without_write_witness:
  "database_relation_is_created configured_world
   \<and> nrf_relation_is_created configured_world
   \<and> can_connect configured_world
   \<and> config_file_is_written configured_world
   \<and> pod_ip configured_world = Inr [1, 1, 1, 1]
   \<and> (\<exists>w' l. dispatch PebbleReadyEvent configured_world = Inr w'
          \<and> journal w' = [AddLayer ''pcf'' l True, Replan, SetStatus (ActiveStatus [])]
          \<and> status w' = ActiveStatus []
          \<and> files w' = [config_path \<mapsto> ''configuration: {}''])"
proof -
  note gates = example_relations(7,8) configured_world_reads(1,2,6)
  from gates runtime_ready_applies_plan_without_write [OF gates]
  show ?thesis
    by (auto simp add: configured_world_reads)
qed

text \<open>
  The claim as stated fails: where the unit's address is an IPv6 address, all four
  conditions of the claim hold and the pebble-ready handler raises in \<^verbatim>\<open>_pod_ip\<close>,
  having applied no plan and set no status.
\<close>

theorem runtime_ready_raises_on_ipv6_address:
  "database_relation_is_created ipv6_world
   \<and> nrf_relation_is_created ipv6_world
   \<and> can_connect ipv6_world
   \<and> config_file_is_written ipv6_world
   \<and> dispatch PebbleReadyEvent ipv6_world = Inl (AddressValueError, ipv6_world)"
  using on_pcf_pebble_ready_raises
    [OF example_relations(11,12) ipv6_world_reads(1,2)
      pebble_layer_of_pod_ip(1) [OF ipv6_world_reads(3)], of PebbleReadyEvent]
  by (simp add: example_relations ipv6_world_reads)

text \<open>
  C8. When a run of the reconciliation procedure took the success path, that is, returned
  with the status Active, a second run in the world it left builds the same layer (the same
  command, startup mode and environment) and returns that same world with three more calls
  in the journal: the layer is added again, the plan is replanned, and the status Active is
  set again. The layers of the plan, the services Pebble runs, the number of starts and
  restarts, the files, the deferred events and the status are all what the first run left.
\<close>

theorem reconciliation_is_idempotent:
  assumes "on_pcf_pebble_ready ev w = Inr w1" and "status w1 = ActiveStatus []"
  shows "\<exists>l. pebble_layer w = Inr l \<and> pebble_layer w1 = Inr l
           \<and> on_pcf_pebble_ready ev w1 =
               Inr (w1\<lparr>journal := journal w1 @
                      [AddLayer ''pcf'' l True, Replan, SetStatus (ActiveStatus [])]\<rparr>)"
proof -
  from assms have guards: "database_relation_is_created w" "nrf_relation_is_created w"
    "can_connect w" "config_file_is_written w"
    by (auto simp add: on_pcf_pebble_ready_def split: if_splits)
  with assms(1) obtain l where l: "pebble_layer w = Inr l"
    by (cases "pebble_layer w") (simp_all add: on_pcf_pebble_ready_def)
  let ?ls = "apply_layer ''pcf'' l (layers w)"
  let ?wa = "w\<lparr>layers := ?ls, journal := journal w @ [AddLayer ''pcf'' l True]\<rparr>"
  have w1: "w1 = set_status (ActiveStatus []) (replan ?wa)"
    using assms(1) on_pcf_pebble_ready_success [OF guards l, of ev] by simp
  have guards1: "database_relation_is_created w1" "nrf_relation_is_created w1"
    "can_connect w1" "config_file_is_written w1"
    using guards unfolding w1 by (simp_all only: success_world_reads)
  have layer: "pebble_layer w1 = Inr l" and ls: "layers w1 = ?ls"
    using l unfolding w1 by (simp_all only: success_world_reads)
  have same: "apply_layer ''pcf'' l (layers w1) = layers w1"
    unfolding ls by (rule apply_layer_pebble_layer_idem [OF l])
  have "on_pcf_pebble_ready ev w1 =
      Inr (set_status (ActiveStatus [])
            (replan (w1\<lparr>journal := journal w1 @ [AddLayer ''pcf'' l True]\<rparr>)))"
    using on_pcf_pebble_ready_success [OF guards1 layer, of ev] unfolding same by simp
  then have "on_pcf_pebble_ready ev w1 =
      Inr (w1\<lparr>journal := journal w1 @
             [AddLayer ''pcf'' l True, Replan, SetStatus (ActiveStatus [])]\<rparr>)"
    by (simp add: reapply_plan [OF w1])
  with l layer show ?thesis
    by blast
qed

theorem reconciliation_is_idempotent_witness:
  "\<exists>w1 l. on_pcf_pebble_ready PebbleReadyEvent configured_world = Inr w1
     \<and> status w1 = ActiveStatus []
     \<and> pebble_layer configured_world = Inr l \<and> pebble_layer w1 = Inr l
     \<and> on_pcf_pebble_ready PebbleReadyEvent w1 =
           Inr (w1\<lparr>journal := journal w1 @
                  [AddLayer ''pcf'' l True, Replan, SetStatus (ActiveStatus [])]\<rparr>)"
proof -
  obtain l where l: "pebble_layer configured_world = Inr l"
    using pebble_layer_of_pod_ip(2) [OF configured_world_reads(6)] by blast
  let ?w1 = "set_status (ActiveStatus [])
      (replan (configured_world\<lparr>layers := apply_layer ''pcf'' l (layers configured_world),
         journal := journal configured_world @ [AddLayer ''pcf'' l True]\<rparr>))"
  have run: "on_pcf_pebble_ready PebbleReadyEvent configured_world = Inr ?w1"
    by (rule on_pcf_pebble_ready_success
        [OF example_relations(7,8) configured_world_reads(1,2) l])
  have active: "status ?w1 = ActiveStatus []"
    by simp
  from reconciliation_is_idempotent [OF run active] l run active show ?thesis
    by (intro exI [of _ ?w1] exI [of _ l]) auto
qed

section \<open>Reading the database payload\<close>

text \<open>
  C9. In every world, \<^verbatim>\<open>_database_data\<close> raises RuntimeError("Database is not available")
  when the database library reports that the resource is not created. When the resource is
  created it never raises RuntimeError, and it returns the data that the library holds for
  the first database relation.
\<close>

theorem database_data_contract:
  "(\<not> is_resource_created w \<longrightarrow>
      database_data w = Inl (RuntimeError ''Database is not available''))
   \<and> (is_resource_created w \<longrightarrow> (\<forall>m. database_data w \<noteq> Inl (RuntimeError m)))
   \<and> (is_resource_created w \<longrightarrow> relations w = rel # rels \<longrightarrow>
        fetch_relation_data w rel = Some d \<longrightarrow> database_data w = Inr d)"
  by (auto simp add: database_data_def database_is_available_def index0_def
      split: list.splits option.splits)

theorem database_data_contract_witness:
  "\<not> is_resource_created quiet_world
   \<and> database_data quiet_world = Inl (RuntimeError ''Database is not available'')
   \<and> is_resource_created ready_world
   \<and> relations ready_world = [0]
   \<and> fetch_relation_data ready_world 0 = Some database_payload
   \<and> database_data ready_world = Inr database_payload"
proof -
  have absent: "\<not> is_resource_created quiet_world"
    by (simp add: quiet_world_def)
  have created: "is_resource_created ready_world"
    and rels: "relations ready_world = [0]"
    and held: "fetch_relation_data ready_world 0 = Some database_payload"
    by (simp_all add: ready_world_def)
  from absent created rels held
    database_data_contract [of quiet_world 0 "[]" database_payload]
    database_data_contract [of ready_world 0 "[]" database_payload]
  show ?thesis by blast
qed

section \<open>Writing the configuration\<close>





text \<open>
  C5. When the \<^verbatim>\<open>uris\<close> payload is a comma-joined list whose first element \<open>u\<close>
  contains no comma, and the guards of the config-write step pass, both data-changed
  handlers render the template with \<open>u\<close> as the database URL and push the document whose
  \<^verbatim>\<open>mongodb.url\<close> line holds \<open>u\<close> to \<^verbatim>\<open>/etc/pcf/pcfcfg.conf\<close>: the
  database-created handler takes the list from the event, the NRF-available handler from
  the relation data. The render and the file are there at the end of the run, whether the
  reconciliation that follows the write returns or raises.
\<close>

theorem first_uri_is_embedded:
  assumes "CHR '','' \<notin> set u" and "uris = join '','' (u # us)"
  shows "(can_connect w \<and> nrf_relation_is_created w \<and> get_nrf_url w = Some n \<and> n \<noteq> [] \<longrightarrow>
            RenderTemplate (render_context u n w)
              \<in> set (journal (final_world (on_database_created (Some uris) w)))
            \<and> files (final_world (on_database_created (Some uris) w)) config_path =
                 Some (template_head @ DATABASE_NAME @ ''\<newline>    url: '' @ u
                       @ ''\<newline>  nrfUri: '' @ n @ template_plmn_sbi @ pcf_hostname w
                       @ template_services @ concat (map logger_entry logger_modules)))
       \<and> (can_connect w \<and> database_relation_is_created w \<and> database_data w = Inr d
            \<and> d ''uris'' = Some uris \<longrightarrow>
            RenderTemplate (render_context u url w)
              \<in> set (journal (final_world (on_nrf_available url w)))
            \<and> files (final_world (on_nrf_available url w)) config_path =
                 Some (template_head @ DATABASE_NAME @ ''\<newline>    url: '' @ u
                       @ ''\<newline>  nrfUri: '' @ url @ template_plmn_sbi @ pcf_hostname w
                       @ template_services @ concat (map logger_entry logger_modules)))"
proof -
  have after: "RenderTemplate (render_context u x w)
        \<in> set (journal (final_world (on_pcf_pebble_ready ev (write_config_file u x w))))
      \<and> files (final_world (on_pcf_pebble_ready ev (write_config_file u x w))) config_path
          = Some (render pcfcfg_template (render_context u x w))" for ev x
    using final_world_on_pcf_pebble_ready [of ev "write_config_file u x w"] by auto
  from assms have first: "first_uri (Some uris) = Inr u"
    and split: "index0 (split CHR '','' uris) = Inr u"
    by (simp_all add: first_uri_join index0_split_join)
  show ?thesis
  proof (intro conjI impI)
    assume guards: "can_connect w \<and> nrf_relation_is_created w \<and> get_nrf_url w = Some n \<and> n \<noteq> []"
    then have run: "on_database_created (Some uris) w =
        on_pcf_pebble_ready (DatabaseCreatedEvent (Some uris)) (write_config_file u n w)"
      using on_database_created_writes [OF _ _ _ _ first, of w n] by simp
    from after [where ev = "DatabaseCreatedEvent (Some uris)" and x = n]
    show "RenderTemplate (render_context u n w)
              \<in> set (journal (final_world (on_database_created (Some uris) w)))"
      and "files (final_world (on_database_created (Some uris) w)) config_path =
                 Some (template_head @ DATABASE_NAME @ ''\<newline>    url: '' @ u
                       @ ''\<newline>  nrfUri: '' @ n @ template_plmn_sbi @ pcf_hostname w
                       @ template_services @ concat (map logger_entry logger_modules))"
      by (simp_all add: run render_pcfcfg)
  next
    assume guards: "can_connect w \<and> database_relation_is_created w \<and> database_data w = Inr d
            \<and> d ''uris'' = Some uris"
    then have run: "on_nrf_available url w =
        on_pcf_pebble_ready (NRFAvailableEvent url) (write_config_file u url w)"
      using on_nrf_available_writes [OF _ _ _ _ split, of w d url] by simp
    from after [where ev = "NRFAvailableEvent url" and x = url]
    show "RenderTemplate (render_context u url w)
              \<in> set (journal (final_world (on_nrf_available url w)))"
      and "files (final_world (on_nrf_available url w)) config_path =
                 Some (template_head @ DATABASE_NAME @ ''\<newline>    url: '' @ u
                       @ ''\<newline>  nrfUri: '' @ url @ template_plmn_sbi @ pcf_hostname w
                       @ template_services @ concat (map logger_entry logger_modules))"
      by (simp_all add: run render_pcfcfg)
  qed
qed

theorem first_uri_is_embedded_witness:
  "CHR '','' \<notin> set ''1.2.3.4:1234''
   \<and> can_connect ready_world \<and> nrf_relation_is_created ready_world
   \<and> get_nrf_url ready_world = Some ''http://1.1.1.1''
   \<and> files (final_world (on_database_created
              (Some (join '','' [''1.2.3.4:1234'', ''5.6.7.8:1111''])) ready_world)) config_path =
         Some (template_head @ DATABASE_NAME @ ''\<newline>    url: '' @ ''1.2.3.4:1234''
               @ ''\<newline>  nrfUri: '' @ ''http://1.1.1.1'' @ template_plmn_sbi
               @ pcf_hostname ready_world
               @ template_services @ concat (map logger_entry logger_modules))
   \<and> database_relation_is_created ready_world
   \<and> database_data ready_world = Inr database_payload
   \<and> database_payload ''uris'' = Some (join '','' [''1.2.3.4:1234'', ''5.6.7.8:1111''])
   \<and> files (final_world (on_nrf_available ''2.2.2.2'' ready_world)) config_path =
         Some (template_head @ DATABASE_NAME @ ''\<newline>    url: '' @ ''1.2.3.4:1234''
               @ ''\<newline>  nrfUri: '' @ ''2.2.2.2'' @ template_plmn_sbi
               @ pcf_hostname ready_world
               @ template_services @ concat (map logger_entry logger_modules))"
proof -
  have nocomma: "CHR '','' \<notin> set ''1.2.3.4:1234''"
    by simp
  have payload: "database_payload ''uris'' = Some (join '','' [''1.2.3.4:1234'', ''5.6.7.8:1111''])"
    by (simp add: database_payload_def)
  have nonempty: "''http://1.1.1.1'' \<noteq> []"
    by simp
  from nocomma payload nonempty ready_world_reads(1,2,5) example_relations(5,6)
    first_uri_is_embedded [OF nocomma refl, of ready_world "''http://1.1.1.1''"
      "[''5.6.7.8:1111'']" database_payload "''2.2.2.2''"]
  show ?thesis
    by blast
qed

text \<open>
  C6. The document that \<^verbatim>\<open>_write_config_file\<close> renders and pushes depends on the
  database URL, the NRF URL and the hostname only: in two worlds with the same hostname,
  whatever else differs, the same two arguments give the same rendered text and the same
  file content, which is the fixed text of the template with the three values in their
  places.
\<close>

theorem render_is_deterministic:
  assumes "pcf_hostname w1 = pcf_hostname w2"
  shows "render pcfcfg_template (render_context d n w1) = render pcfcfg_template (render_context d n w2)
       \<and> files (write_config_file d n w1) config_path = files (write_config_file d n w2) config_path
       \<and> files (write_config_file d n w1) config_path =
           Some (template_head @ DATABASE_NAME @ ''\<newline>    url: '' @ d
                 @ ''\<newline>  nrfUri: '' @ n @ template_plmn_sbi @ pcf_hostname w1
                 @ template_services @ concat (map logger_entry logger_modules))"
  using assms by (simp add: render_pcfcfg)

theorem render_is_deterministic_witness:
  "pcf_hostname ready_world = pcf_hostname configured_world
   \<and> files (write_config_file ''1.2.3.4:1234'' ''http://1.1.1.1'' ready_world) config_path
       = files (write_config_file ''1.2.3.4:1234'' ''http://1.1.1.1'' configured_world) config_path"
proof -
  have same: "pcf_hostname ready_world = pcf_hostname configured_world"
    by (simp add: pcf_hostname_def configured_world_def)
  from same render_is_deterministic [OF same, of "''1.2.3.4:1234''" "''http://1.1.1.1''"]
  show ?thesis by blast
qed

section \<open>Status assignment\<close>

lemma status_after_write:
  assumes "can_connect w" and "nrf_relation_is_created w \<or> database_relation_is_created w"
  shows "reconciliation_status (write_config_file d n w) =
     (if \<not> database_relation_is_created w then
        BlockedStatus ''Waiting for database relation to be created''
      else if \<not> nrf_relation_is_created w then
        BlockedStatus ''Waiting for NRF relation to be created''
      else ActiveStatus [])"
  using assms by (simp add: reconciliation_status_def)

text \<open>
  C10. Every run of each of the four handlers that returns has assigned the unit status
  exactly once; the status assigned is the one of the branch the run took, as
  \<open>branch_status\<close> tabulates them; it is the status the unit has afterwards; and it is an
  ActiveStatus, a BlockedStatus or a WaitingStatus.
\<close>

theorem every_handler_run_assigns_status:
  assumes "dispatch ev w = Inr w'"
  shows "\<exists>calls. journal w' = journal w @ calls
           \<and> status_assignments calls = [branch_status ev w]
           \<and> status w' = branch_status ev w
           \<and> reported_status (status w')"
proof -
  have reported: "reported_status (branch_status ev w)"
    by (cases ev) (simp_all add: branch_status_def reconciliation_status_def)
  have "\<exists>calls. journal w' = journal w @ calls
           \<and> status_assignments calls = [branch_status ev w]
           \<and> status w' = branch_status ev w"
  proof (cases ev)
    case PebbleReadyEvent
    with assms on_pcf_pebble_ready_journal [of PebbleReadyEvent w w'] show ?thesis
      by (auto simp add: branch_status_def)
  next
    case RelationJoinedEvent
    with assms on_pcf_pebble_ready_journal [of RelationJoinedEvent w w'] show ?thesis
      by (auto simp add: branch_status_def)
  next
    case (DatabaseCreatedEvent uris)
    show ?thesis
    proof (cases "can_connect w \<and> nrf_relation_is_created w \<and> nrf_data_is_available w")
      case False
      with assms DatabaseCreatedEvent show ?thesis
        by (auto simp add: on_database_created_def branch_status_def Let_def split: if_splits)
    next
      case True
      with assms DatabaseCreatedEvent obtain u where
        run: "on_pcf_pebble_ready ev (write_config_file u (jinja_str (get_nrf_url w)) w) = Inr w'"
        by (auto simp add: on_database_created_def Let_def split: sum.splits)
      from True have "branch_status ev w =
          reconciliation_status (write_config_file u (jinja_str (get_nrf_url w)) w)"
        by (simp add: DatabaseCreatedEvent branch_status_def status_after_write)
      with on_pcf_pebble_ready_journal [OF run] show ?thesis
        by auto
    qed
  next
    case (NRFAvailableEvent url)
    show ?thesis
    proof (cases "can_connect w \<and> database_relation_is_created w \<and> database_is_available w")
      case False
      with assms NRFAvailableEvent show ?thesis
        by (auto simp add: on_nrf_available_def branch_status_def Let_def split: if_splits)
    next
      case True
      with assms NRFAvailableEvent obtain u where
        run: "on_pcf_pebble_ready ev (write_config_file u url w) = Inr w'"
        by (auto simp add: on_nrf_available_def Let_def split: sum.splits)
      from True have "branch_status ev w = reconciliation_status (write_config_file u url w)"
        by (simp add: NRFAvailableEvent branch_status_def status_after_write)
      with on_pcf_pebble_ready_journal [OF run] show ?thesis
        by auto
    qed
  qed
  with reported show ?thesis
    by auto
qed

theorem every_handler_run_assigns_status_witness:
  "dispatch RelationJoinedEvent both_joined_world =
     Inr (defer_event RelationJoinedEvent
            (set_status (WaitingStatus ''Waiting for container to be ready'') both_joined_world))
   \<and> branch_status RelationJoinedEvent both_joined_world
        = WaitingStatus ''Waiting for container to be ready''
   \<and> (\<exists>calls.
         journal (defer_event RelationJoinedEvent
            (set_status (WaitingStatus ''Waiting for container to be ready'') both_joined_world))
           = journal both_joined_world @ calls
         \<and> status_assignments calls = [WaitingStatus ''Waiting for container to be ready''])"
proof -
  let ?w' = "defer_event RelationJoinedEvent
            (set_status (WaitingStatus ''Waiting for container to be ready'') both_joined_world)"
  have unreachable: "\<not> can_connect both_joined_world"
    by (simp add: both_joined_world_def quiet_world_def)
  then have run: "dispatch RelationJoinedEvent both_joined_world = Inr ?w'"
    using example_relations(3,4) by (simp add: on_pcf_pebble_ready_def)
  have branch: "branch_status RelationJoinedEvent both_joined_world
        = WaitingStatus ''Waiting for container to be ready''"
    using unreachable example_relations(3,4)
    by (simp add: branch_status_def reconciliation_status_def)
  from every_handler_run_assigns_status [OF run]
  obtain calls where "journal ?w' = journal both_joined_world @ calls"
    and "status_assignments calls = [branch_status RelationJoinedEvent both_joined_world]"
    by blast
  with run branch show ?thesis
    by auto
qed

end
